theory Spec2Isabelle
  imports Complex_Main "HOL-Library.Char_ord" "HOL-Library.List_Lexorder" "HOL-Library.Word"
begin

unbundle bit_operations_syntax

section \<open>Exceptions\<close>

text \<open>
  Every exception the modelled code raises is a value of \<open>error\<close>; a function that can
  raise returns \<open>error + 'a\<close> with \<open>Inl\<close> for the exception. \<open>ZincParseException\<close> is the
  codecs' parse error, \<open>HttpError\<close> carries the HTTP status code of \<open>ops.py\<close>;
  \<open>ValueError\<close> and \<open>BinasciiError\<close> are what the standard library's decoders raise.
\<close>

datatype error =
    TypeError
  | AssertionError
  | ZincParseException
  | StopIteration
  | ValueError
  | BinasciiError
  | SchemaError
  | HttpError nat

section \<open>Python floats under comparison\<close>

text \<open>
  A Python float is NaN, an infinity or a finite binary fraction. The comparison operators
  of IEEE-754 depend only on the numeric value (\<open>-0.0 == 0.0\<close>), so a finite float is
  represented by its rational value. Every comparison with NaN is false, except \<open>!=\<close>.
\<close>

datatype pyfloat = NaN | NegInf | Finite rat | PosInf

definition float_eq :: "pyfloat \<Rightarrow> pyfloat \<Rightarrow> bool" where
  "float_eq x y = (x \<noteq> NaN \<and> y \<noteq> NaN \<and> x = y)"

definition float_ne :: "pyfloat \<Rightarrow> pyfloat \<Rightarrow> bool" where
  "float_ne x y = (\<not> float_eq x y)"

fun float_lt :: "pyfloat \<Rightarrow> pyfloat \<Rightarrow> bool" where
  "float_lt NaN y = False"
| "float_lt x NaN = False"
| "float_lt x NegInf = False"
| "float_lt NegInf y = True"
| "float_lt PosInf y = False"
| "float_lt x PosInf = True"
| "float_lt (Finite p) (Finite q) = (p < q)"

definition float_le :: "pyfloat \<Rightarrow> pyfloat \<Rightarrow> bool" where
  "float_le x y = (float_lt x y \<or> float_eq x y)"

definition float_gt :: "pyfloat \<Rightarrow> pyfloat \<Rightarrow> bool" where
  "float_gt x y = float_lt y x"

definition float_ge :: "pyfloat \<Rightarrow> pyfloat \<Rightarrow> bool" where
  "float_ge x y = float_le y x"

section \<open>Quantity (haystackapi/datatypes.py, class Qty)\<close>

record Qty =
  qty_value :: pyfloat
  qty_unit :: "string option"

text \<open>The right operand of a comparison is another \<open>Qty\<close> or a bare number.\<close>

datatype operand = QtyOperand Qty | NumOperand pyfloat

text \<open>
  \<open>Qty._cmp_op(self, other, operator)\<close>: with a \<open>Qty\<close> on the right the units are
  compared first and a difference raises \<open>TypeError\<close>; otherwise the operator is applied to
  the two float values.
\<close>

fun cmp_op :: "Qty \<Rightarrow> operand \<Rightarrow> (pyfloat \<Rightarrow> pyfloat \<Rightarrow> bool) \<Rightarrow> error + bool" where
  "cmp_op self (QtyOperand other) operator =
     (if qty_unit other \<noteq> qty_unit self then Inl TypeError
      else Inr (operator (qty_value self) (qty_value other)))"
| "cmp_op self (NumOperand other) operator = Inr (operator (qty_value self) other)"

definition Qty_lt :: "Qty \<Rightarrow> operand \<Rightarrow> error + bool" where
  "Qty_lt self other = cmp_op self other (\<lambda>x y. float_lt x y)"

definition Qty_le :: "Qty \<Rightarrow> operand \<Rightarrow> error + bool" where
  "Qty_le self other = cmp_op self other (\<lambda>x y. float_le x y)"

definition Qty_eq :: "Qty \<Rightarrow> operand \<Rightarrow> error + bool" where
  "Qty_eq self other = cmp_op self other (\<lambda>x y. float_eq x y)"

definition Qty_ge :: "Qty \<Rightarrow> operand \<Rightarrow> error + bool" where
  "Qty_ge self other = cmp_op self other (\<lambda>x y. float_ge x y)"

definition Qty_gt :: "Qty \<Rightarrow> operand \<Rightarrow> error + bool" where
  "Qty_gt self other = cmp_op self other (\<lambda>x y. float_gt x y)"

definition Qty_ne :: "Qty \<Rightarrow> operand \<Rightarrow> error + bool" where
  "Qty_ne self other = cmp_op self other (\<lambda>x y. float_ne x y)"

section \<open>Coordinate (haystackapi/datatypes.py)\<close>

record Coordinate =
  latitude :: pyfloat
  longitude :: pyfloat

section \<open>Uri, Bin and plain strings (haystackapi/datatypes.py)\<close>

text \<open>
  Python text is kept as its UTF-8 bytes in a \<open>string\<close>: equality and lexicographic order
  of the byte strings are those of the code points, and an ASCII character is one byte
  that occurs in no other character's encoding.

  \<open>Uri\<close> and \<open>Bin\<close> are subclasses of \<open>str\<close>. An object of one of the three classes has
  its class, its characters and its identity (\<open>oid\<close>): two records are the same object exactly
  when they are equal.
\<close>

datatype str_class = StrClass | UriClass | BinClass

record text_obj =
  cls :: str_class
  chars :: string
  oid :: nat

text \<open>A rich comparison method returns a truth value or \<open>NotImplemented\<close>.\<close>

datatype cmp_result = NotImplemented | Result bool

text \<open>\<open>str.__eq__\<close> and \<open>str.__ne__\<close> on two instances of \<open>str\<close> compare the text.\<close>

definition str_eq :: "text_obj \<Rightarrow> text_obj \<Rightarrow> cmp_result" where
  "str_eq self other = Result (chars self = chars other)"

definition str_ne :: "text_obj \<Rightarrow> text_obj \<Rightarrow> cmp_result" where
  "str_ne self other = Result (chars self \<noteq> chars other)"

text \<open>\<open>Uri.__eq__\<close> and \<open>Bin.__eq__\<close>.\<close>

definition Uri_eq :: "text_obj \<Rightarrow> text_obj \<Rightarrow> cmp_result" where
  "Uri_eq self other =
     (if \<not> (cls other = UriClass) then NotImplemented else str_eq self other)"

definition Bin_eq :: "text_obj \<Rightarrow> text_obj \<Rightarrow> cmp_result" where
  "Bin_eq self other =
     (if \<not> (cls other = BinClass) then NotImplemented else str_eq self other)"

text \<open>
  Method lookup along the class hierarchy. \<open>Uri\<close> and \<open>Bin\<close> define \<open>__eq__\<close> and nothing
  else, so their \<open>__ne__\<close> is the one inherited from \<open>str\<close>.
\<close>

fun eq_method :: "str_class \<Rightarrow> text_obj \<Rightarrow> text_obj \<Rightarrow> cmp_result" where
  "eq_method StrClass = str_eq"
| "eq_method UriClass = Uri_eq"
| "eq_method BinClass = Bin_eq"

fun ne_method :: "str_class \<Rightarrow> text_obj \<Rightarrow> text_obj \<Rightarrow> cmp_result" where
  "ne_method StrClass = str_ne"
| "ne_method UriClass = str_ne"
| "ne_method BinClass = str_ne"

fun issubclass :: "str_class \<Rightarrow> str_class \<Rightarrow> bool" where
  "issubclass c StrClass = True"
| "issubclass c d = (c = d)"

text \<open>
  The operators \<open>v == w\<close> and \<open>v != w\<close> of the language: when the class of \<open>w\<close> is a proper
  subclass of the class of \<open>v\<close>, the method of \<open>w\<close> is tried first; otherwise the method of
  \<open>v\<close>, then the method of \<open>w\<close> with the operands swapped. A method that returns
  \<open>NotImplemented\<close> passes the turn; when both do, \<open>==\<close> is identity and \<open>!=\<close> its negation.
\<close>

definition richcompare ::
  "(str_class \<Rightarrow> text_obj \<Rightarrow> text_obj \<Rightarrow> cmp_result) \<Rightarrow> bool \<Rightarrow> text_obj \<Rightarrow> text_obj \<Rightarrow> bool" where
  "richcompare method fallback v w =
     (if cls v \<noteq> cls w \<and> issubclass (cls w) (cls v) then
        (case method (cls w) w v of
           Result r \<Rightarrow> r
         | NotImplemented \<Rightarrow>
             (case method (cls v) v w of Result r \<Rightarrow> r | NotImplemented \<Rightarrow> fallback))
      else
        (case method (cls v) v w of
           Result r \<Rightarrow> r
         | NotImplemented \<Rightarrow>
             (case method (cls w) w v of Result r \<Rightarrow> r | NotImplemented \<Rightarrow> fallback)))"

definition py_eq :: "text_obj \<Rightarrow> text_obj \<Rightarrow> bool" where
  "py_eq v w = richcompare eq_method (v = w) v w"

definition py_ne :: "text_obj \<Rightarrow> text_obj \<Rightarrow> bool" where
  "py_ne v w = richcompare ne_method (v \<noteq> w) v w"

text \<open>The three constructors applied to the same text; \<open>i\<close> is the new object's identity.\<close>

definition String :: "string \<Rightarrow> nat \<Rightarrow> text_obj" where
  "String s i = \<lparr>cls = StrClass, chars = s, oid = i\<rparr>"

definition Uri :: "string \<Rightarrow> nat \<Rightarrow> text_obj" where
  "Uri s i = \<lparr>cls = UriClass, chars = s, oid = i\<rparr>"

definition Bin :: "string \<Rightarrow> nat \<Rightarrow> text_obj" where
  "Bin s i = \<lparr>cls = BinClass, chars = s, oid = i\<rparr>"

section \<open>XStr (haystackapi/datatypes.py)\<close>

text \<open>
  The \<open>data\<close> of an \<open>XStr\<close> is a \<open>bytearray\<close> (encoding \<open>hex\<close>), a \<open>bytes\<close> object (encoding
  \<open>b64\<close>) or the undecoded \<open>str\<close>. \<open>==\<close> on these compares \<open>bytes\<close> and \<open>bytearray\<close> by
  content, also across the two types, and never equates either with a \<open>str\<close>.
\<close>

datatype xstr_data = ByteArray "8 word list" | Bytes "8 word list" | Undecoded string

fun data_eq :: "xstr_data \<Rightarrow> xstr_data \<Rightarrow> bool" where
  "data_eq (Undecoded s) (Undecoded t) = (s = t)"
| "data_eq (Undecoded s) y = False"
| "data_eq x (Undecoded t) = False"
| "data_eq (ByteArray a) (ByteArray b) = (a = b)"
| "data_eq (ByteArray a) (Bytes b) = (a = b)"
| "data_eq (Bytes a) (ByteArray b) = (a = b)"
| "data_eq (Bytes a) (Bytes b) = (a = b)"

record XStr =
  encoding :: string
  data :: xstr_data

text \<open>
  \<open>XStr.__init__\<close>. The decoders \<open>bytearray.fromhex\<close> and \<open>base64.b64decode\<close> belong to the
  standard library and are parameters; each returns the bytes or raises.
\<close>

definition XStr_init ::
  "(string \<Rightarrow> error + 8 word list) \<Rightarrow> (string \<Rightarrow> error + 8 word list) \<Rightarrow> string \<Rightarrow> string \<Rightarrow> error + XStr" where
  "XStr_init fromhex b64decode enc d =
     (if enc = ''hex'' then
        (case fromhex d of Inl e \<Rightarrow> Inl e
         | Inr b \<Rightarrow> Inr \<lparr>encoding = enc, data = ByteArray b\<rparr>)
      else if enc = ''b64'' then
        (case b64decode d of Inl e \<Rightarrow> Inl e
         | Inr b \<Rightarrow> Inr \<lparr>encoding = enc, data = Bytes b\<rparr>)
      else Inr \<lparr>encoding = enc, data = Undecoded d\<rparr>)"

section \<open>Singletons (haystackapi/datatypes.py)\<close>

text \<open>
  \<open>MarkerType\<close>, \<open>NAType\<close> and \<open>RemoveType\<close> inherit from \<open>Singleton\<close>. An instance is its
  class and its identity; the module creates one instance of each class.
\<close>

datatype singleton_class = MarkerType | NAType | RemoveType

record singleton =
  singleton_cls :: singleton_class
  singleton_oid :: nat

definition MARKER :: singleton where
  "MARKER = \<lparr>singleton_cls = MarkerType, singleton_oid = 0\<rparr>"

definition NA :: singleton where
  "NA = \<lparr>singleton_cls = NAType, singleton_oid = 1\<rparr>"

definition REMOVE :: singleton where
  "REMOVE = \<lparr>singleton_cls = RemoveType, singleton_oid = 2\<rparr>"

text \<open>\<open>Singleton.__copy__\<close>, \<open>Singleton.__deepcopy__\<close> and \<open>Singleton.__hash__\<close>; the hash of
  a class object is a parameter.\<close>

definition Singleton_copy :: "singleton \<Rightarrow> singleton" where
  "Singleton_copy self = self"

definition Singleton_deepcopy :: "singleton \<Rightarrow> 'memo \<Rightarrow> singleton" where
  "Singleton_deepcopy self memo = self"

definition Singleton_hash :: "(singleton_class \<Rightarrow> int) \<Rightarrow> singleton \<Rightarrow> int" where
  "Singleton_hash hash_class self = hash_class (singleton_cls self)"

section \<open>Ref (haystackapi/datatypes.py)\<close>

record Ref =
  ref_name :: string
  ref_value :: "string option"
  ref_has_value :: bool

text \<open>The character class \<open>[a-zA-Z0-9_:\-.~]\<close>.\<close>

definition ref_name_char :: "char \<Rightarrow> bool" where
  "ref_name_char c =
     ((CHR ''a'' \<le> c \<and> c \<le> CHR ''z'') \<or> (CHR ''A'' \<le> c \<and> c \<le> CHR ''Z'')
      \<or> (CHR ''0'' \<le> c \<and> c \<le> CHR ''9'')
      \<or> c = CHR ''_'' \<or> c = CHR '':'' \<or> c = CHR ''-'' \<or> c = CHR ''.'' \<or> c = CHR ''~'')"

text \<open>
  \<open>re.match("^[a-zA-Z0-9_:\\-.~]+$", name)\<close>: one or more characters of the class from the
  start, up to a position where \<open>$\<close> matches. Without the MULTILINE flag \<open>$\<close> matches at the
  end of the string and also just before a newline that is the last character.
\<close>

definition re_match_name :: "string \<Rightarrow> bool" where
  "re_match_name name =
     (takeWhile ref_name_char name \<noteq> []
      \<and> (dropWhile ref_name_char name = [] \<or> dropWhile ref_name_char name = [CHR 0x0A]))"

text \<open>\<open>Ref.__init__\<close>: the \<open>assert\<close> raises \<open>AssertionError\<close>.\<close>

definition Ref_init :: "string \<Rightarrow> string option \<Rightarrow> bool \<Rightarrow> error + Ref" where
  "Ref_init name val has_value =
     (if \<not> re_match_name name then Inl AssertionError
      else Inr \<lparr>ref_name = name, ref_value = val, ref_has_value = (has_value \<or> val \<noteq> None)\<rparr>)"

text \<open>The older module \<open>hszinc/datatypes.py\<close> has the same constructor without the check.\<close>

definition hszinc_Ref_init :: "string \<Rightarrow> string option \<Rightarrow> bool \<Rightarrow> Ref" where
  "hszinc_Ref_init name val has_value =
     \<lparr>ref_name = name, ref_value = val, ref_has_value = (has_value \<or> val \<noteq> None)\<rparr>"

text \<open>
  The names the data model allows, in the words of the spec: one or more characters, each
  of the class. This is the predicate that \<open>re_match_name\<close> is compared with.
\<close>

definition valid_ref_name :: "string \<Rightarrow> bool" where
  "valid_ref_name name = (name \<noteq> [] \<and> (\<forall>c \<in> set name. ref_name_char c))"

text \<open>The order methods of \<open>Ref\<close> delegate to the order of \<open>str\<close> on the names.\<close>

definition Ref_lt :: "Ref \<Rightarrow> Ref \<Rightarrow> bool" where
  "Ref_lt self other = (ref_name self < ref_name other)"

definition Ref_le :: "Ref \<Rightarrow> Ref \<Rightarrow> bool" where
  "Ref_le self other = (ref_name self \<le> ref_name other)"

definition Ref_gt :: "Ref \<Rightarrow> Ref \<Rightarrow> bool" where
  "Ref_gt self other = (ref_name self > ref_name other)"

definition Ref_ge :: "Ref \<Rightarrow> Ref \<Rightarrow> bool" where
  "Ref_ge self other = (ref_name self \<ge> ref_name other)"

text \<open>
  \<open>Ref.__hash__\<close>. The hash of a \<open>str\<close>, of \<open>None\<close> and of a \<open>bool\<close> are the interpreter's and
  are parameters.
\<close>

definition Ref_hash :: "(string \<Rightarrow> int) \<Rightarrow> int \<Rightarrow> (bool \<Rightarrow> int) \<Rightarrow> Ref \<Rightarrow> int" where
  "Ref_hash hash_str hash_None hash_bool self =
     hash_str (ref_name self)
       XOR (case ref_value self of None \<Rightarrow> hash_None | Some v \<Rightarrow> hash_str v)
       XOR hash_bool (ref_has_value self)"

section \<open>The values of the data model\<close>

datatype pyobj =
    PyNone
  | PyBool bool
  | PyFloat pyfloat
  | PyStr string
  | PyUri string
  | PyBin string
  | PyQty Qty
  | PyCoordinate Coordinate
  | PyXStr XStr
  | PySingleton singleton
  | PyRef Ref

text \<open>
  The methods \<open>Coordinate.__eq__\<close>, \<open>__ne__\<close> and \<open>__hash__\<close>. \<open>Coordinate_hash\<close> is what the
  method \<open>__hash__\<close> returns, for the hash of floats given as a parameter; what \<open>hash(c)\<close>
  returns is \<open>hash_Coordinate\<close> below.
\<close>

fun Coordinate_eq :: "Coordinate \<Rightarrow> pyobj \<Rightarrow> cmp_result" where
  "Coordinate_eq self (PyCoordinate other) =
     Result (float_eq (latitude self) (latitude other)
             \<and> float_eq (longitude self) (longitude other))"
| "Coordinate_eq self other = NotImplemented"

fun Coordinate_ne :: "Coordinate \<Rightarrow> pyobj \<Rightarrow> cmp_result" where
  "Coordinate_ne self (PyCoordinate other) =
     (case Coordinate_eq self (PyCoordinate other) of
        Result r \<Rightarrow> Result (\<not> r) | NotImplemented \<Rightarrow> NotImplemented)"
| "Coordinate_ne self other = NotImplemented"

definition Coordinate_hash :: "(pyfloat \<Rightarrow> int) \<Rightarrow> Coordinate \<Rightarrow> int" where
  "Coordinate_hash hash_float self = hash_float (latitude self) XOR hash_float (longitude self)"

text \<open>
  The hash of a float in the interpreter, by the rule the language documents for numeric
  types: with the prime \<open>P = 2^61 - 1\<close>, the fraction \<open>m/n\<close> in lowest terms hashes to
  \<open>|m| * n^(P-2) mod P\<close> with the sign of \<open>m\<close> (to the hash of infinity when \<open>P\<close> divides
  \<open>n\<close>), and \<open>-1\<close> is replaced by \<open>-2\<close>; the infinities hash to \<open>314159\<close> and \<open>-314159\<close>. The
  hash of a NaN depends on the interpreter's version (zero, or a value made from the
  object's address); it is a value of the signed 64-bit hash type and is the parameter
  \<open>hash_nan\<close>.
\<close>

definition hash_modulus :: int where
  "hash_modulus = 2 ^ 61 - 1"

definition hash_fraction :: "int \<Rightarrow> int \<Rightarrow> int" where
  "hash_fraction m n =
     (let hash_value =
            (if n mod hash_modulus = 0 then 314159
             else (\<bar>m\<bar> mod hash_modulus) * (n ^ nat (hash_modulus - 2) mod hash_modulus)
                    mod hash_modulus);
          signed = (if m < 0 then - hash_value else hash_value)
      in if signed = - 1 then - 2 else signed)"

definition float_hash :: "64 word \<Rightarrow> pyfloat \<Rightarrow> int" where
  "float_hash hash_nan x =
     (case x of
        NaN \<Rightarrow> sint hash_nan
      | PosInf \<Rightarrow> 314159
      | NegInf \<Rightarrow> - 314159
      | Finite r \<Rightarrow> (case quotient_of r of (m, n) \<Rightarrow> hash_fraction m n))"

text \<open>
  The built-in \<open>hash(obj)\<close> on an object whose class defines \<open>__hash__\<close>, from the integer
  \<open>r\<close> that the method returns: \<open>r\<close> itself when it fits the signed 64-bit hash type,
  otherwise the hash of the integer \<open>r\<close>; and \<open>-1\<close>, which the interpreter keeps for
  errors, becomes \<open>-2\<close>.
\<close>

definition int_hash :: "int \<Rightarrow> int" where
  "int_hash r =
     (let signed = (if r < 0 then - (\<bar>r\<bar> mod hash_modulus) else \<bar>r\<bar> mod hash_modulus)
      in if signed = - 1 then - 2 else signed)"

definition builtin_hash :: "int \<Rightarrow> int" where
  "builtin_hash r =
     (let h = (if - (2 ^ 63) \<le> r \<and> r < 2 ^ 63 then r else int_hash r)
      in if h = - 1 then - 2 else h)"

text \<open>\<open>hash(c)\<close> on a Coordinate \<open>c\<close>: the built-in applied to what \<open>c.__hash__()\<close> returns.\<close>

definition hash_Coordinate :: "(pyfloat \<Rightarrow> int) \<Rightarrow> Coordinate \<Rightarrow> int" where
  "hash_Coordinate hash_float c = builtin_hash (Coordinate_hash hash_float c)"

text \<open>\<open>XStr.__eq__\<close>.\<close>

fun XStr_eq :: "XStr \<Rightarrow> pyobj \<Rightarrow> cmp_result" where
  "XStr_eq self (PyXStr other) = Result (data_eq (data self) (data other))"
| "XStr_eq self other = NotImplemented"

text \<open>\<open>Ref.__eq__\<close> and \<open>Ref.__ne__\<close>.\<close>

fun Ref_eq :: "Ref \<Rightarrow> pyobj \<Rightarrow> cmp_result" where
  "Ref_eq self (PyRef other) =
     Result (ref_name self = ref_name other
             \<and> ref_has_value self = ref_has_value other
             \<and> ref_value self = ref_value other)"
| "Ref_eq self other = NotImplemented"

fun Ref_ne :: "Ref \<Rightarrow> pyobj \<Rightarrow> cmp_result" where
  "Ref_ne self (PyRef other) =
     (case Ref_eq self (PyRef other) of
        Result r \<Rightarrow> Result (\<not> r) | NotImplemented \<Rightarrow> NotImplemented)"
| "Ref_ne self other = NotImplemented"

section \<open>CSV parser (haystackapi/csvparser.py)\<close>

text \<open>
  \<open>parse_scalar\<close> returns the module's sentinel \<open>_EMPTY\<close> or a value; the caller tells them
  apart by identity, so the sentinel is a constructor of its own.
\<close>

datatype cell = EMPTY | Parsed pyobj

text \<open>The check mark U+2713 in UTF-8.\<close>

definition check_mark :: string where
  "check_mark = [CHR 0xE2, CHR 0x9C, CHR 0x93]"

text \<open>
  \<open>s.split(' ', 1)\<close>: the whole string when it has no space, otherwise the part before the
  first space and the part after it.
\<close>

definition split_space :: "string \<Rightarrow> string \<times> string option" where
  "split_space s =
     (case dropWhile (\<lambda>c. c \<noteq> CHR '' '') s of
        [] \<Rightarrow> (s, None)
      | sp # rest \<Rightarrow> (takeWhile (\<lambda>c. c \<noteq> CHR '' '') s, Some rest))"

text \<open>
  \<open>parse_scalar(scalar, version)\<close>. The Zinc scalar parser \<open>zinc_parse_scalar\<close> is in
  \<open>zincparser.py\<close> and is a parameter: it returns a value or raises. Only its
  \<open>ZincParseException\<close> is caught.
\<close>

definition parse_scalar ::
  "(string \<Rightarrow> 'v \<Rightarrow> error + pyobj) \<Rightarrow> string \<Rightarrow> 'v \<Rightarrow> error + cell" where
  "parse_scalar zinc_parse_scalar scalar version =
     (if scalar = [] then Inr EMPTY
      else if scalar = check_mark then Inr (Parsed (PySingleton MARKER))
      else if scalar = ''true'' then Inr (Parsed (PyBool True))
      else if scalar = ''false'' then Inr (Parsed (PyBool False))
      else if hd scalar = CHR ''@'' then
        (case split_space (tl scalar) of
           (name, val) \<Rightarrow>
             (case Ref_init name val False of
                Inl e \<Rightarrow> Inl e
              | Inr r \<Rightarrow> Inr (Parsed (PyRef r))))
      else
        (case zinc_parse_scalar scalar version of
           Inl ZincParseException \<Rightarrow> Inr (Parsed (PyStr scalar))
         | Inl e \<Rightarrow> Inl e
         | Inr v \<Rightarrow> Inr (Parsed v)))"

text \<open>
  Modelled from the spec: the class \<open>Grid\<close> of \<open>grid.py\<close>, which \<open>src/\<close> does not hold. A grid
  has a version, metadata, the columns in order, each with its metadata, and the rows in
  order; a duplicate column name is refused with \<open>SchemaError\<close>; a row is appended at the
  end.
\<close>

record 'v Grid =
  grid_version :: 'v
  grid_metadata :: "string \<rightharpoonup> pyobj"
  grid_column :: "(string \<times> (string \<rightharpoonup> pyobj)) list"
  grid_rows :: "(string \<rightharpoonup> pyobj) list"

definition Grid_init :: "'v \<Rightarrow> (string \<times> (string \<rightharpoonup> pyobj)) list \<Rightarrow> error + 'v Grid" where
  "Grid_init version columns =
     (if distinct (map fst columns)
      then Inr \<lparr>grid_version = version, grid_metadata = Map.empty,
                grid_column = columns, grid_rows = []\<rparr>
      else Inl SchemaError)"

definition Grid_append :: "'v Grid \<Rightarrow> (string \<rightharpoonup> pyobj) \<Rightarrow> 'v Grid" where
  "Grid_append grid row = grid\<lparr>grid_rows := grid_rows grid @ [row]\<rparr>"

text \<open>
  The inner loop of \<open>parse_grid\<close> over the cells of one row, from index \<open>idx\<close> on, filling
  \<open>a_map\<close>.
\<close>

fun parse_cells ::
  "(string \<Rightarrow> 'v \<Rightarrow> error + pyobj) \<Rightarrow> 'v \<Rightarrow> string list \<Rightarrow> nat \<Rightarrow> string list
     \<Rightarrow> (string \<rightharpoonup> pyobj) \<Rightarrow> error + (string \<rightharpoonup> pyobj)" where
  "parse_cells zinc version headers idx [] a_map = Inr a_map"
| "parse_cells zinc version headers idx (val # row) a_map =
     (case parse_scalar zinc val version of
        Inl e \<Rightarrow> Inl e
      | Inr EMPTY \<Rightarrow> parse_cells zinc version headers (Suc idx) row a_map
      | Inr (Parsed v) \<Rightarrow>
          if idx \<ge> length headers then Inl ZincParseException
          else if v \<noteq> PyNone
            then parse_cells zinc version headers (Suc idx) row (a_map(headers ! idx \<mapsto> v))
            else parse_cells zinc version headers (Suc idx) row a_map)"

text \<open>The outer loop over the rows after the header row.\<close>

fun parse_rows ::
  "(string \<Rightarrow> 'v \<Rightarrow> error + pyobj) \<Rightarrow> 'v \<Rightarrow> string list \<Rightarrow> string list list
     \<Rightarrow> 'v Grid \<Rightarrow> error + 'v Grid" where
  "parse_rows zinc version headers [] grid = Inr grid"
| "parse_rows zinc version headers (row # rows) grid =
     (case parse_cells zinc version headers 0 row Map.empty of
        Inl e \<Rightarrow> Inl e
      | Inr a_map \<Rightarrow> parse_rows zinc version headers rows (Grid_append grid a_map))"

text \<open>
  \<open>parse_grid\<close>, on the rows that the standard library's \<open>csv.reader\<close> yields for the text
  (each row a list of cell strings). \<open>next\<close> on a reader without rows raises
  \<open>StopIteration\<close>. \<open>VER_3_0\<close> is a constant of \<open>version.py\<close> and is a parameter.
\<close>

definition parse_grid ::
  "(string \<Rightarrow> 'v \<Rightarrow> error + pyobj) \<Rightarrow> 'v \<Rightarrow> string list list \<Rightarrow> error + 'v Grid" where
  "parse_grid zinc VER_3_0 csv_reader =
     (case csv_reader of
        [] \<Rightarrow> Inl StopIteration
      | headers # rows \<Rightarrow>
          (case Grid_init VER_3_0 (map (\<lambda>x. (x, Map.empty)) headers) of
             Inl e \<Rightarrow> Inl e
           | Inr grid \<Rightarrow> parse_rows zinc VER_3_0 headers rows grid))"

text \<open>A Zinc scalar parser that rejects every text, for the cells that never reach it.\<close>

definition zinc_rejects :: "string \<Rightarrow> unit \<Rightarrow> error + pyobj" where
  "zinc_rejects scalar version = Inl ZincParseException"

section \<open>Format negotiation (haystackapi/ops.py)\<close>

text \<open>
  Modelled from the spec: the constants \<open>MODE_ZINC\<close>, \<open>MODE_JSON\<close> and \<open>MODE_CSV\<close> of
  \<open>parser.py\<close>, which \<open>src/\<close> does not hold; they are the mime types of the three formats.
\<close>

definition MODE_ZINC :: string where
  "MODE_ZINC = ''text/zinc''"

definition MODE_JSON :: string where
  "MODE_JSON = ''application/json''"

definition MODE_CSV :: string where
  "MODE_CSV = ''text/csv''"

definition DEFAULT_MIME_TYPE :: string where
  "DEFAULT_MIME_TYPE = MODE_CSV"

text \<open>The tail of \<open>_dump_response\<close>: the default format when there is one, else HTTP 406.\<close>

definition dump_default :: "('g \<Rightarrow> string \<Rightarrow> 'b) \<Rightarrow> 'g \<Rightarrow> string option \<Rightarrow> error + (string \<times> 'b)" where
  "dump_default dump grid default_mode =
     (case default_mode of
        None \<Rightarrow> Inl (HttpError 406)
      | Some d \<Rightarrow>
          if d = [] then Inl (HttpError 406)
          else Inr (d @ ''; charset=utf-8'', dump grid d))"

text \<open>
  \<open>_dump_response(accept, grid, default)\<close>. The matcher \<open>get_best_match\<close> and the dumper
  \<open>dump\<close> are parameters; the matcher returns one of the offered types or \<open>None\<close>.
\<close>

definition dump_response ::
  "('h \<Rightarrow> string list \<Rightarrow> string option) \<Rightarrow> ('g \<Rightarrow> string \<Rightarrow> 'b) \<Rightarrow> 'h \<Rightarrow> 'g \<Rightarrow> string option
     \<Rightarrow> error + (string \<times> 'b)" where
  "dump_response get_best_match dump accept grid default_mode =
     (case get_best_match accept [''*/*'', MODE_CSV, MODE_ZINC, MODE_JSON] of
        None \<Rightarrow> dump_default dump grid default_mode
      | Some accept_type \<Rightarrow>
          if accept_type = [] then dump_default dump grid default_mode
          else if accept_type = DEFAULT_MIME_TYPE \<or> accept_type = ''*/*'' then
            Inr (DEFAULT_MIME_TYPE @ ''; charset=utf-8'', dump grid DEFAULT_MIME_TYPE)
          else if accept_type = MODE_ZINC then
            Inr (MODE_ZINC @ ''; charset=utf-8'', dump grid MODE_ZINC)
          else if accept_type = MODE_JSON then
            Inr (MODE_JSON @ ''; charset=utf-8'', dump grid MODE_JSON)
          else if accept_type = MODE_CSV then
            Inr (MODE_CSV @ ''; charset=utf-8'', dump grid MODE_CSV)
          else dump_default dump grid default_mode)"

text \<open>
  Modelled from the spec: \<open>get_best_match\<close> of the package \<open>accept_types\<close>, which \<open>ops.py\<close>
  imports and \<open>src/\<close> does not hold. The spec gives its purpose, to pick an offered type
  that the header accepts or none. Its steps are those of the repository's own port of
  the package for encodings, \<open>_parse_header\<close> and \<open>get_best_encoding_match\<close> in \<open>ops.py\<close>: the
  header's entries are sorted by weight with \<open>sorted(..., reverse=True)\<close>, which is stable,
  so the highest weight comes first and equal weights keep the header's order; the outer
  loop walks the sorted entries, the inner loop the offered types, and the first offered
  type that the current entry matches is returned. The header is given by its entries in
  the order it lists them, each a media range and a weight; a range matches a type when
  it is \<open>*/*\<close>, the type itself, or the type's major part followed by \<open>/*\<close>.
\<close>

record acceptable_type =
  media_range :: string
  weight :: rat

definition major_type :: "string \<Rightarrow> string" where
  "major_type t = takeWhile (\<lambda>c. c \<noteq> CHR ''/'') t"

definition matches :: "string \<Rightarrow> string \<Rightarrow> bool" where
  "matches r t = (r = ''*/*'' \<or> r = t \<or> r = major_type t @ ''/*'')"

definition sorted_reverse :: "acceptable_type list \<Rightarrow> acceptable_type list" where
  "sorted_reverse types = sort_key (\<lambda>a. - weight a) types"

fun first_match :: "acceptable_type list \<Rightarrow> string list \<Rightarrow> string option" where
  "first_match [] available = None"
| "first_match (a # rest) available =
     (case find (matches (media_range a)) available of
        Some t \<Rightarrow> Some t
      | None \<Rightarrow> first_match rest available)"

definition get_best_match :: "acceptable_type list \<Rightarrow> string list \<Rightarrow> string option" where
  "get_best_match header available = first_match (sorted_reverse header) available"

text \<open>An entry of the header that matches one of the three formats.\<close>

definition offered :: "acceptable_type \<Rightarrow> bool" where
  "offered a = (matches (media_range a) MODE_CSV \<or> matches (media_range a) MODE_ZINC
                \<or> matches (media_range a) MODE_JSON)"

section \<open>Properties of Quantity\<close>

lemma float_eq_NaN [simp]: "\<not> float_eq NaN y" "\<not> float_eq x NaN"
  by (simp_all add: float_eq_def)

lemmas Qty_ops = Qty_eq_def Qty_ne_def Qty_lt_def Qty_le_def Qty_gt_def Qty_ge_def

text \<open>
  Claim C2 as stated fails: comparing two Numbers whose units differ does not return false.
  \<open>Number(1, "kW") == Number(1, "W")\<close> raises \<open>TypeError\<close>, and so does \<open><\<close> between a Number
  with a unit and one without.
\<close>

theorem Qty_units_differ_counterexample:
  "Qty_eq \<lparr>qty_value = Finite 1, qty_unit = Some ''kW''\<rparr>
          (QtyOperand \<lparr>qty_value = Finite 1, qty_unit = Some ''W''\<rparr>) = Inl TypeError
   \<and> Qty_lt \<lparr>qty_value = Finite 1, qty_unit = Some ''kW''\<rparr>
          (QtyOperand \<lparr>qty_value = Finite 2, qty_unit = None\<rparr>) \<noteq> Inr False"
  by (simp add: Qty_ops)

text \<open>
  Claim C2, amended: \<open>a == b\<close> on two Numbers returns true exactly when the float values
  compare equal and the unit labels are equal; a Number holding NaN is unequal to itself;
  and each of the six comparisons returns the comparison of the float values when the
  units are equal and raises \<open>TypeError\<close> when they differ.
\<close>

theorem Qty_compare_by_value_and_unit:
  "(Qty_eq a (QtyOperand b) = Inr True
      \<longleftrightarrow> float_eq (qty_value a) (qty_value b) \<and> qty_unit a = qty_unit b)
   \<and> Qty_eq \<lparr>qty_value = NaN, qty_unit = u\<rparr> (QtyOperand \<lparr>qty_value = NaN, qty_unit = u\<rparr>) = Inr False
   \<and> Qty_ne \<lparr>qty_value = NaN, qty_unit = u\<rparr> (QtyOperand \<lparr>qty_value = NaN, qty_unit = u\<rparr>) = Inr True
   \<and> Qty_eq a (QtyOperand b) =
       (if qty_unit a = qty_unit b then Inr (float_eq (qty_value a) (qty_value b)) else Inl TypeError)
   \<and> Qty_ne a (QtyOperand b) =
       (if qty_unit a = qty_unit b then Inr (float_ne (qty_value a) (qty_value b)) else Inl TypeError)
   \<and> Qty_lt a (QtyOperand b) =
       (if qty_unit a = qty_unit b then Inr (float_lt (qty_value a) (qty_value b)) else Inl TypeError)
   \<and> Qty_le a (QtyOperand b) =
       (if qty_unit a = qty_unit b then Inr (float_le (qty_value a) (qty_value b)) else Inl TypeError)
   \<and> Qty_gt a (QtyOperand b) =
       (if qty_unit a = qty_unit b then Inr (float_gt (qty_value a) (qty_value b)) else Inl TypeError)
   \<and> Qty_ge a (QtyOperand b) =
       (if qty_unit a = qty_unit b then Inr (float_ge (qty_value a) (qty_value b)) else Inl TypeError)"
  by (auto simp: Qty_ops float_ne_def)

theorem Qty_compare_by_value_and_unit_witness:
  "Qty_eq \<lparr>qty_value = Finite 1, qty_unit = Some ''kW''\<rparr>
          (QtyOperand \<lparr>qty_value = Finite 1, qty_unit = Some ''kW''\<rparr>) = Inr True
   \<and> Qty_lt \<lparr>qty_value = Finite 1, qty_unit = Some ''kW''\<rparr>
          (QtyOperand \<lparr>qty_value = Finite 2, qty_unit = Some ''kW''\<rparr>) = Inr True
   \<and> Qty_ge \<lparr>qty_value = Finite 1, qty_unit = Some ''kW''\<rparr>
          (QtyOperand \<lparr>qty_value = Finite 2, qty_unit = Some ''W''\<rparr>) = Inl TypeError"
  using Qty_compare_by_value_and_unit
          [of "\<lparr>qty_value = Finite 1, qty_unit = Some ''kW''\<rparr>"
              "\<lparr>qty_value = Finite 1, qty_unit = Some ''kW''\<rparr>"]
        Qty_compare_by_value_and_unit
          [of "\<lparr>qty_value = Finite 1, qty_unit = Some ''kW''\<rparr>"
              "\<lparr>qty_value = Finite 2, qty_unit = Some ''kW''\<rparr>"]
        Qty_compare_by_value_and_unit
          [of "\<lparr>qty_value = Finite 1, qty_unit = Some ''kW''\<rparr>"
              "\<lparr>qty_value = Finite 2, qty_unit = Some ''W''\<rparr>"]
  by (simp add: float_eq_def)

section \<open>Properties of Uri, Bin and plain strings\<close>

lemmas text_ops = py_eq_def py_ne_def richcompare_def String_def Uri_def Bin_def
  Uri_eq_def Bin_eq_def str_eq_def str_ne_def

text \<open>
  What the two operators return on the three wrappers of one text \<open>s\<close>, for every \<open>s\<close>:
  a plain string is equal to the \<open>Uri\<close> and to the \<open>Bin\<close> (the method of \<open>str\<close> answers once
  the subclass has returned \<open>NotImplemented\<close>); a \<open>Uri\<close> and a \<open>Bin\<close> are not equal; and \<open>!=\<close>
  is false on every pair, since it is the method of \<open>str\<close> and compares the text alone.
\<close>

lemma text_wrappers_compare:
  "py_eq (String s i) (Uri s j) \<and> py_eq (Uri s j) (String s i)
   \<and> py_eq (String s i) (Bin s k) \<and> py_eq (Bin s k) (String s i)
   \<and> \<not> py_eq (Uri s j) (Bin s k) \<and> \<not> py_eq (Bin s k) (Uri s j)
   \<and> \<not> py_ne (String s i) (Uri s j) \<and> \<not> py_ne (Uri s j) (String s i)
   \<and> \<not> py_ne (String s i) (Bin s k) \<and> \<not> py_ne (Bin s k) (String s i)
   \<and> \<not> py_ne (Uri s j) (Bin s k) \<and> \<not> py_ne (Bin s k) (Uri s j)"
  by (simp add: text_ops)

text \<open>Within one class both operators compare the text.\<close>

lemma same_class_compare:
  "py_eq (Uri s i) (Uri t j) = (s = t) \<and> py_ne (Uri s i) (Uri t j) = (s \<noteq> t)
   \<and> py_eq (Bin s i) (Bin t j) = (s = t) \<and> py_ne (Bin s i) (Bin t j) = (s \<noteq> t)
   \<and> py_eq (String s i) (String t j) = (s = t)"
  by (simp add: text_ops)

text \<open>
  Claim C1 says that \<open>String(s) != Uri(s)\<close>, \<open>Uri(s) != Bin(s)\<close> and \<open>String(s) != Bin(s)\<close>
  for every \<open>s\<close>. At \<open>s = "a"\<close> the code answers otherwise: \<open>"a" == Uri("a")\<close> and
  \<open>"a" == Bin("a")\<close> are true, and \<open>!=\<close> is false on all three pairs, also on
  \<open>Uri("a")\<close> and \<open>Bin("a")\<close>, whose \<open>==\<close> is false as well.
\<close>

theorem text_wrappers_at_a:
  "py_eq (String ''a'' 0) (Uri ''a'' 1) = True
   \<and> py_ne (String ''a'' 0) (Uri ''a'' 1) = False
   \<and> py_eq (String ''a'' 0) (Bin ''a'' 2) = True
   \<and> py_ne (String ''a'' 0) (Bin ''a'' 2) = False
   \<and> py_eq (Uri ''a'' 1) (Bin ''a'' 2) = False
   \<and> py_ne (Uri ''a'' 1) (Bin ''a'' 2) = False"
  by (simp add: text_ops)

section \<open>Properties of Coordinate\<close>

lemma float_hash_values:
  "float_hash hn (Finite 1) = 1" "float_hash hn (Finite (- 1)) = - 2"
  "float_hash hn (Finite 2) = 2" "float_hash hn (Finite (- 3)) = - 3"
  by (simp_all add: float_hash_def hash_fraction_def hash_modulus_def)

text \<open>The XOR of two integers of the signed 64-bit range (of any such range) stays in it.\<close>

lemma xor_in_range:
  fixes a b :: int
  assumes "- (2 ^ n) \<le> a" "a < 2 ^ n" "- (2 ^ n) \<le> b" "b < 2 ^ n"
  shows "- (2 ^ n) \<le> a XOR b \<and> a XOR b < 2 ^ n"
proof -
  have a: "signed_take_bit n a = a" and b: "signed_take_bit n b = b"
    using assms by (simp_all add: signed_take_bit_int_eq_self_iff)
  have "signed_take_bit n (a XOR b) = signed_take_bit n a XOR signed_take_bit n b"
    by (rule bit_eqI) (simp add: bit_signed_take_bit_iff bit_xor_iff)
  then have "signed_take_bit n (a XOR b) = a XOR b"
    by (simp only: a b)
  then show ?thesis by (simp add: signed_take_bit_int_eq_self_iff)
qed

text \<open>The interpreter's hash of a float is in the signed 64-bit range.\<close>

lemma float_hash_range:
  "- (2 ^ 63) \<le> float_hash hn x \<and> float_hash hn x < 2 ^ 63"
proof -
  have n: "- (2 ^ 63) \<le> sint hn \<and> sint hn < 2 ^ 63"
    using sint_ge [of hn] sint_lt [of hn] by simp
  have m: "0 \<le> k mod hash_modulus \<and> k mod hash_modulus < 2 ^ 61" for k :: int
  proof -
    have "0 < hash_modulus" by (simp add: hash_modulus_def)
    then have "0 \<le> k mod hash_modulus" "k mod hash_modulus < hash_modulus"
      by simp_all
    then show ?thesis by (simp add: hash_modulus_def)
  qed
  have f: "- (2 ^ 63) \<le> hash_fraction p q \<and> hash_fraction p q < 2 ^ 63" for p q
    using m [of "(\<bar>p\<bar> mod hash_modulus) * (q ^ nat (hash_modulus - 2) mod hash_modulus)"]
    by (auto simp: hash_fraction_def Let_def)
  show ?thesis
    using n f by (cases x) (auto simp: float_hash_def split: prod.splits)
qed

text \<open>
  Claim C9 as stated fails in its hash clause: for \<open>Coordinate(1.0, -1.0)\<close> the hashes of
  the two floats are \<open>1\<close> and \<open>-2\<close>, their XOR is \<open>-1\<close>, and \<open>hash(c)\<close> is \<open>-2\<close>.
\<close>

theorem Coordinate_hash_minus_one_counterexample:
  "hash_Coordinate (float_hash 0) \<lparr>latitude = Finite 1, longitude = Finite (- 1)\<rparr> = - 2
   \<and> float_hash 0 (Finite 1) XOR float_hash 0 (Finite (- 1)) = - 1"
  by (simp add: hash_Coordinate_def Coordinate_hash_def builtin_hash_def float_hash_values)

text \<open>The built-in on a \<open>__hash__\<close> result of the signed 64-bit range: only \<open>-1\<close> changes.\<close>

lemma builtin_hash_in_range:
  "- (2 ^ 63) \<le> r \<Longrightarrow> r < 2 ^ 63 \<Longrightarrow> builtin_hash r = (if r = - 1 then - 2 else r)"
  by (simp add: builtin_hash_def)

text \<open>
  Claim C9, amended: two Coordinates are equal exactly when their latitudes compare equal
  and their longitudes compare equal (\<open>!=\<close> is the negation); \<open>c.__hash__()\<close> returns the hash
  of the latitude XOR the hash of the longitude; and \<open>hash(c)\<close> is that XOR for every
  Coordinate \<open>c\<close>, except that it is \<open>-2\<close> when the XOR is \<open>-1\<close>.
\<close>

theorem Coordinate_eq_and_hash:
  "Coordinate_eq a (PyCoordinate b) =
     Result (float_eq (latitude a) (latitude b) \<and> float_eq (longitude a) (longitude b))
   \<and> Coordinate_ne a (PyCoordinate b) =
     Result (\<not> (float_eq (latitude a) (latitude b) \<and> float_eq (longitude a) (longitude b)))
   \<and> Coordinate_hash hash_float c = hash_float (latitude c) XOR hash_float (longitude c)
   \<and> hash_Coordinate (float_hash hn) c =
       (if float_hash hn (latitude c) XOR float_hash hn (longitude c) = - 1 then - 2
        else float_hash hn (latitude c) XOR float_hash hn (longitude c))"
proof -
  from xor_in_range [of 63 "float_hash hn (latitude c)" "float_hash hn (longitude c)"]
    float_hash_range [of hn "latitude c"] float_hash_range [of hn "longitude c"]
  have "- (2 ^ 63) \<le> float_hash hn (latitude c) XOR float_hash hn (longitude c)"
    "float_hash hn (latitude c) XOR float_hash hn (longitude c) < 2 ^ 63" by simp_all
  then have "hash_Coordinate (float_hash hn) c =
       (if float_hash hn (latitude c) XOR float_hash hn (longitude c) = - 1 then - 2
        else float_hash hn (latitude c) XOR float_hash hn (longitude c))"
    by (simp add: hash_Coordinate_def Coordinate_hash_def builtin_hash_in_range)
  then show ?thesis by (simp add: Coordinate_hash_def)
qed

theorem Coordinate_eq_and_hash_witness:
  "hash_Coordinate (float_hash 0) \<lparr>latitude = Finite 1, longitude = Finite 2\<rparr> = 3
   \<and> hash_Coordinate (float_hash 0) \<lparr>latitude = Finite 2, longitude = Finite (- 3)\<rparr> = - 2
   \<and> Coordinate_hash (float_hash 0) \<lparr>latitude = Finite 2, longitude = Finite (- 3)\<rparr> = - 1"
  using Coordinate_eq_and_hash [where hn = 0 and hash_float = "float_hash 0"
      and c = "\<lparr>latitude = Finite 1, longitude = Finite 2\<rparr>"]
    Coordinate_eq_and_hash [where hn = 0 and hash_float = "float_hash 0"
      and c = "\<lparr>latitude = Finite 2, longitude = Finite (- 3)\<rparr>"]
  by (simp add: float_hash_values)

text \<open>
  The same holds of any hash of floats whose two values are of the signed 64-bit range.
\<close>

lemma hash_Coordinate_any_float_hash:
  assumes "- (2 ^ 63) \<le> hash_float (latitude c)" "hash_float (latitude c) < 2 ^ 63"
    "- (2 ^ 63) \<le> hash_float (longitude c)" "hash_float (longitude c) < 2 ^ 63"
  shows "hash_Coordinate hash_float c =
          (if hash_float (latitude c) XOR hash_float (longitude c) = - 1 then - 2
           else hash_float (latitude c) XOR hash_float (longitude c))"
proof -
  from xor_in_range [OF assms]
  have "- (2 ^ 63) \<le> hash_float (latitude c) XOR hash_float (longitude c)"
    "hash_float (latitude c) XOR hash_float (longitude c) < 2 ^ 63" by simp_all
  then show ?thesis
    by (simp add: hash_Coordinate_def Coordinate_hash_def builtin_hash_in_range)
qed

section \<open>Properties of XStr\<close>

text \<open>
  Claim C10: \<open>x == y\<close> on two XStr values is \<open>x.data == y.data\<close> and the encoding fields play
  no part. The constructor keeps the encoding and, for \<open>hex\<close> and \<open>b64\<close>, stores the bytes
  that the decoder returns (its error when it raises), and the string itself for any other
  encoding. So \<open>XStr("hex", s) == XStr("b64", t)\<close>, and any comparison of decoded values,
  is true exactly when the decoded bytes are the same; two undecoded values are equal
  exactly when their strings are, and a decoded value never equals an undecoded one.
\<close>

theorem XStr_eq_data_only:
  "XStr_eq x (PyXStr y) = Result (data_eq (data x) (data y))
   \<and> XStr_eq (x\<lparr>encoding := e\<rparr>) (PyXStr (y\<lparr>encoding := e'\<rparr>)) = XStr_eq x (PyXStr y)
   \<and> XStr_init fromhex b64decode ''hex'' s =
       (case fromhex s of Inl err \<Rightarrow> Inl err
        | Inr bs \<Rightarrow> Inr \<lparr>encoding = ''hex'', data = ByteArray bs\<rparr>)
   \<and> XStr_init fromhex b64decode ''b64'' t =
       (case b64decode t of Inl err \<Rightarrow> Inl err
        | Inr bt \<Rightarrow> Inr \<lparr>encoding = ''b64'', data = Bytes bt\<rparr>)
   \<and> (enc \<noteq> ''hex'' \<and> enc \<noteq> ''b64'' \<longrightarrow>
        XStr_init fromhex b64decode enc d = Inr \<lparr>encoding = enc, data = Undecoded d\<rparr>)
   \<and> (fromhex s = Inr bs \<and> b64decode t = Inr bt \<longrightarrow>
        XStr_init fromhex b64decode ''hex'' s = Inr \<lparr>encoding = ''hex'', data = ByteArray bs\<rparr>
      \<and> XStr_init fromhex b64decode ''b64'' t = Inr \<lparr>encoding = ''b64'', data = Bytes bt\<rparr>
      \<and> XStr_eq \<lparr>encoding = ''hex'', data = ByteArray bs\<rparr>
                 (PyXStr \<lparr>encoding = ''b64'', data = Bytes bt\<rparr>) = Result (bs = bt))
   \<and> XStr_eq \<lparr>encoding = e1, data = ByteArray bs\<rparr> (PyXStr \<lparr>encoding = e2, data = Bytes bt\<rparr>)
       = Result (bs = bt)
   \<and> XStr_eq \<lparr>encoding = e1, data = Bytes bs\<rparr> (PyXStr \<lparr>encoding = e2, data = ByteArray bt\<rparr>)
       = Result (bs = bt)
   \<and> XStr_eq \<lparr>encoding = e1, data = ByteArray bs\<rparr> (PyXStr \<lparr>encoding = e2, data = ByteArray bt\<rparr>)
       = Result (bs = bt)
   \<and> XStr_eq \<lparr>encoding = e1, data = Bytes bs\<rparr> (PyXStr \<lparr>encoding = e2, data = Bytes bt\<rparr>)
       = Result (bs = bt)
   \<and> XStr_eq \<lparr>encoding = e1, data = Undecoded d1\<rparr> (PyXStr \<lparr>encoding = e2, data = Undecoded d2\<rparr>)
       = Result (d1 = d2)
   \<and> XStr_eq \<lparr>encoding = e1, data = Undecoded d1\<rparr> (PyXStr \<lparr>encoding = e2, data = Bytes bt\<rparr>)
       = Result False
   \<and> XStr_eq \<lparr>encoding = e1, data = Undecoded d1\<rparr> (PyXStr \<lparr>encoding = e2, data = ByteArray bt\<rparr>)
       = Result False
   \<and> XStr_eq \<lparr>encoding = e1, data = Bytes bs\<rparr> (PyXStr \<lparr>encoding = e2, data = Undecoded d2\<rparr>)
       = Result False
   \<and> XStr_eq \<lparr>encoding = e1, data = ByteArray bs\<rparr> (PyXStr \<lparr>encoding = e2, data = Undecoded d2\<rparr>)
       = Result False"
  by (simp add: XStr_init_def)

text \<open>
  Decoders that know three strings: hex \<open>6162\<close> and base64 \<open>YWI=\<close> are the bytes \<open>ab\<close>,
  base64 \<open>YWM=\<close> is \<open>ac\<close>.
\<close>

theorem XStr_eq_data_only_witness:
  "XStr_init (\<lambda>s. if s = ''6162'' then Inr [0x61, 0x62] else Inl ValueError)
             (\<lambda>t. if t = ''YWI='' then Inr [0x61, 0x62] else Inl BinasciiError) ''hex'' ''6162''
     = Inr \<lparr>encoding = ''hex'', data = ByteArray [0x61, 0x62]\<rparr>
   \<and> XStr_init (\<lambda>s. if s = ''6162'' then Inr [0x61, 0x62] else Inl ValueError)
             (\<lambda>t. if t = ''YWI='' then Inr [0x61, 0x62] else Inl BinasciiError) ''b64'' ''YWI=''
     = Inr \<lparr>encoding = ''b64'', data = Bytes [0x61, 0x62]\<rparr>
   \<and> XStr_eq \<lparr>encoding = ''hex'', data = ByteArray [0x61, 0x62]\<rparr>
              (PyXStr \<lparr>encoding = ''b64'', data = Bytes [0x61, 0x62]\<rparr>) = Result True
   \<and> XStr_init (\<lambda>s. if s = ''6162'' then Inr [0x61, 0x62] else Inl ValueError)
             (\<lambda>t. if t = ''YWM='' then Inr [0x61, 0x63] else Inl BinasciiError) ''b64'' ''YWM=''
     = Inr \<lparr>encoding = ''b64'', data = Bytes [0x61, 0x63]\<rparr>
   \<and> XStr_eq \<lparr>encoding = ''hex'', data = ByteArray [0x61, 0x62]\<rparr>
              (PyXStr \<lparr>encoding = ''b64'', data = Bytes [0x61, 0x63]\<rparr>) = Result False
   \<and> XStr_init (\<lambda>s. if s = ''6162'' then Inr [0x61, 0x62] else Inl ValueError)
             (\<lambda>t. if t = ''YWI='' then Inr [0x61, 0x62] else Inl BinasciiError) ''Color'' ''red''
     = Inr \<lparr>encoding = ''Color'', data = Undecoded ''red''\<rparr>"
  using XStr_eq_data_only
    [where fromhex = "\<lambda>s. if s = ''6162'' then Inr [0x61, 0x62] else Inl ValueError"
       and s = "''6162''"
       and ?b64decode = "\<lambda>t. if t = ''YWI='' then Inr [0x61, 0x62] else Inl BinasciiError"
       and t = "''YWI=''" and enc = "''Color''" and d = "''red''"
       and bs = "[0x61, 0x62]" and bt = "[0x61, 0x62]"]
    XStr_eq_data_only
    [where fromhex = "\<lambda>s. if s = ''6162'' then Inr [0x61, 0x62] else Inl ValueError"
       and s = "''6162''"
       and ?b64decode = "\<lambda>t. if t = ''YWM='' then Inr [0x61, 0x63] else Inl BinasciiError"
       and t = "''YWM=''" and enc = "''Color''" and d = "''red''"
       and bs = "[0x61, 0x62]" and bt = "[0x61, 0x63]"]
  by simp

section \<open>Properties of the singletons\<close>

text \<open>
  Claim C7: \<open>copy\<close> and \<open>deepcopy\<close> of \<open>MARKER\<close>, \<open>NA\<close> and \<open>REMOVE\<close> (of any instance) return
  the instance itself; the hash of an instance is the hash of its class, whatever its
  identity; and the three module instances are three different objects.
\<close>

theorem singletons_copy_identity_hash_by_class:
  "Singleton_copy MARKER = MARKER \<and> Singleton_copy NA = NA \<and> Singleton_copy REMOVE = REMOVE
   \<and> Singleton_deepcopy MARKER memo = MARKER \<and> Singleton_deepcopy NA memo = NA
   \<and> Singleton_deepcopy REMOVE memo = REMOVE
   \<and> Singleton_copy s = s \<and> Singleton_deepcopy s memo = s
   \<and> Singleton_hash hash_class s = hash_class (singleton_cls s)
   \<and> Singleton_hash hash_class (s\<lparr>singleton_oid := i\<rparr>) = Singleton_hash hash_class s
   \<and> Singleton_hash hash_class MARKER = hash_class MarkerType
   \<and> Singleton_hash hash_class NA = hash_class NAType
   \<and> Singleton_hash hash_class REMOVE = hash_class RemoveType
   \<and> distinct [MARKER, NA, REMOVE]"
  by (simp add: Singleton_copy_def Singleton_deepcopy_def Singleton_hash_def MARKER_def NA_def REMOVE_def)

section \<open>Properties of Ref\<close>

text \<open>
  Claim C6: \<open>a == b\<close> on two Refs is the equality of the triples
  \<open>(name, has_value, value)\<close>, and \<open>!=\<close> its negation; \<open><\<close>, \<open><=\<close>, \<open>>\<close> and \<open>>=\<close> are those
  of the two names; and two equal Refs have the same hash.
\<close>

theorem Ref_eq_order_hash:
  "Ref_eq a (PyRef b) =
     Result ((ref_name a, ref_has_value a, ref_value a) = (ref_name b, ref_has_value b, ref_value b))
   \<and> Ref_ne a (PyRef b) =
     Result ((ref_name a, ref_has_value a, ref_value a) \<noteq> (ref_name b, ref_has_value b, ref_value b))
   \<and> Ref_lt a b = (ref_name a < ref_name b) \<and> Ref_le a b = (ref_name a \<le> ref_name b)
   \<and> Ref_gt a b = (ref_name a > ref_name b) \<and> Ref_ge a b = (ref_name a \<ge> ref_name b)
   \<and> Ref_lt (a\<lparr>ref_value := v, ref_has_value := h\<rparr>) (b\<lparr>ref_value := v', ref_has_value := h'\<rparr>)
       = Ref_lt a b
   \<and> Ref_le (a\<lparr>ref_value := v, ref_has_value := h\<rparr>) (b\<lparr>ref_value := v', ref_has_value := h'\<rparr>)
       = Ref_le a b
   \<and> (Ref_eq a (PyRef b) = Result True \<longrightarrow>
        Ref_hash hash_str hash_None hash_bool a = Ref_hash hash_str hash_None hash_bool b)"
  by (auto simp: Ref_lt_def Ref_le_def Ref_gt_def Ref_ge_def Ref_hash_def)

theorem Ref_eq_order_hash_witness:
  "Ref_eq \<lparr>ref_name = ''abc'', ref_value = Some ''Boiler 1'', ref_has_value = True\<rparr>
          (PyRef \<lparr>ref_name = ''abc'', ref_value = Some ''Boiler 1'', ref_has_value = True\<rparr>) = Result True
   \<and> Ref_hash (\<lambda>s. int (length s)) 7 (\<lambda>b. if b then 1 else 0)
        \<lparr>ref_name = ''abc'', ref_value = Some ''Boiler 1'', ref_has_value = True\<rparr>
     = Ref_hash (\<lambda>s. int (length s)) 7 (\<lambda>b. if b then 1 else 0)
        \<lparr>ref_name = ''abc'', ref_value = Some ''Boiler 1'', ref_has_value = True\<rparr>
   \<and> Ref_lt \<lparr>ref_name = ''abc'', ref_value = Some ''z'', ref_has_value = True\<rparr>
            \<lparr>ref_name = ''abd'', ref_value = None, ref_has_value = False\<rparr>"
  using Ref_eq_order_hash
    [of "\<lparr>ref_name = ''abc'', ref_value = Some ''Boiler 1'', ref_has_value = True\<rparr>"
        "\<lparr>ref_name = ''abc'', ref_value = Some ''Boiler 1'', ref_has_value = True\<rparr>"
        _ _ _ _ "\<lambda>s. int (length s)" 7 "\<lambda>b. if b then 1 else 0"]
    Ref_eq_order_hash
    [of "\<lparr>ref_name = ''abc'', ref_value = Some ''z'', ref_has_value = True\<rparr>"
        "\<lparr>ref_name = ''abd'', ref_value = None, ref_has_value = False\<rparr>"]
  by simp

section \<open>Properties of the Ref constructor\<close>

text \<open>
  The regular expression accepts the names of the data model and, besides them, such a
  name followed by one newline, because \<open>$\<close> also matches before a final newline.
\<close>

lemma re_match_name_iff:
  "re_match_name name \<longleftrightarrow>
     valid_ref_name name \<or> (\<exists>p. valid_ref_name p \<and> name = p @ [CHR 0x0A])"
proof
  assume m: "re_match_name name"
  let ?p = "takeWhile ref_name_char name" and ?d = "dropWhile ref_name_char name"
  have split: "name = ?p @ ?d" by simp
  have vp: "valid_ref_name ?p"
    using m by (auto simp: re_match_name_def valid_ref_name_def dest: set_takeWhileD)
  from m have "?d = [] \<or> ?d = [CHR 0x0A]" by (simp add: re_match_name_def)
  then show "valid_ref_name name \<or> (\<exists>p. valid_ref_name p \<and> name = p @ [CHR 0x0A])"
  proof
    assume "?d = []"
    with split have "name = ?p" by simp
    with vp show ?thesis by simp
  next
    assume "?d = [CHR 0x0A]"
    with split have "name = ?p @ [CHR 0x0A]" by simp
    with vp show ?thesis by blast
  qed
next
  assume "valid_ref_name name \<or> (\<exists>p. valid_ref_name p \<and> name = p @ [CHR 0x0A])"
  then show "re_match_name name"
  proof
    assume v: "valid_ref_name name"
    then show ?thesis
      by (cases name) (auto simp: re_match_name_def valid_ref_name_def)
  next
    assume "\<exists>p. valid_ref_name p \<and> name = p @ [CHR 0x0A]"
    then obtain p where v: "valid_ref_name p" and n: "name = p @ [CHR 0x0A]" by blast
    have nl: "\<not> ref_name_char (CHR 0x0A)" by (simp add: ref_name_char_def)
    from v have all: "\<And>x. x \<in> set p \<Longrightarrow> ref_name_char x" by (simp add: valid_ref_name_def)
    have "takeWhile ref_name_char name = p" "dropWhile ref_name_char name = [CHR 0x0A]"
      using all nl by (simp_all add: n)
    with v show ?thesis by (simp add: re_match_name_def valid_ref_name_def)
  qed
qed

text \<open>A valid name is always constructed, with \<open>has_value\<close> set when a value is given.\<close>

lemma Ref_init_valid:
  "valid_ref_name name \<Longrightarrow>
     Ref_init name val has_value =
       Inr \<lparr>ref_name = name, ref_value = val, ref_has_value = (has_value \<or> val \<noteq> None)\<rparr>"
  by (simp add: Ref_init_def re_match_name_iff)

text \<open>
  An empty name, and a name with a character outside the class that is not a single
  trailing newline, fail with \<open>AssertionError\<close>.
\<close>

lemma Ref_init_invalid:
  "\<not> valid_ref_name name \<Longrightarrow> \<not> (\<exists>p. valid_ref_name p \<and> name = p @ [CHR 0x0A]) \<Longrightarrow>
     Ref_init name val has_value = Inl AssertionError"
  by (simp add: Ref_init_def re_match_name_iff)

lemma Ref_init_examples:
  "Ref_init '''' None False = Inl AssertionError"
  "Ref_init ''a b'' None False = Inl AssertionError"
  "Ref_init ''abc'' (Some ''Boiler 1'') False =
     Inr \<lparr>ref_name = ''abc'', ref_value = Some ''Boiler 1'', ref_has_value = True\<rparr>"
  by (simp_all add: Ref_init_def re_match_name_def ref_name_char_def)

text \<open>The constructor of the older module accepts every name, the empty one too.\<close>

lemma hszinc_Ref_init_unchecked:
  "ref_name (hszinc_Ref_init name val has_value) = name"
  by (simp add: hszinc_Ref_init_def)

text \<open>
  Claim C5 says that a name with a character outside the class fails at construction.
  The name \<open>"a\n"\<close> holds a newline, which is outside the class, and is not a valid name;
  the constructor accepts it and returns the Ref.
\<close>

theorem Ref_init_trailing_newline:
  "\<not> ref_name_char (CHR 0x0A)
   \<and> \<not> valid_ref_name [CHR ''a'', CHR 0x0A]
   \<and> Ref_init [CHR ''a'', CHR 0x0A] None False =
       Inr \<lparr>ref_name = [CHR ''a'', CHR 0x0A], ref_value = None, ref_has_value = False\<rparr>"
  by (simp add: Ref_init_def re_match_name_def valid_ref_name_def ref_name_char_def)

theorem Ref_init_trailing_newline_witness:
  "\<exists>r. Ref_init [CHR ''a'', CHR 0x0A] None False = Inr r \<and> CHR 0x0A \<in> set (ref_name r)"
  using Ref_init_trailing_newline by simp

section \<open>Properties of the CSV parser\<close>

lemma parse_scalar_EMPTY: "parse_scalar zinc c ver = Inr EMPTY \<longleftrightarrow> c = []"
  by (auto simp: parse_scalar_def split: prod.splits sum.splits error.splits)

lemma split_space_no_space:
  assumes "CHR '' '' \<notin> set s"
  shows "split_space s = (s, None)"
proof -
  have "\<forall>c \<in> set s. c \<noteq> CHR '' ''" using assms by auto
  then have d: "dropWhile (\<lambda>c. c \<noteq> CHR '' '') s = []" by simp
  show ?thesis unfolding split_space_def d by simp
qed

lemma split_space_at_space:
  assumes "CHR '' '' \<notin> set s"
  shows "split_space (s @ CHR '' '' # r) = (s, Some r)"
proof -
  have a: "\<And>c. c \<in> set s \<Longrightarrow> c \<noteq> CHR '' ''" using assms by auto
  have "dropWhile (\<lambda>c. c \<noteq> CHR '' '') (s @ CHR '' '' # r) = CHR '' '' # r"
    using a by simp
  moreover have "takeWhile (\<lambda>c. c \<noteq> CHR '' '') (s @ CHR '' '' # r) = s"
    using a by simp
  ultimately show ?thesis by (simp add: split_space_def)
qed

lemma valid_ref_name_no_space: "valid_ref_name name \<Longrightarrow> CHR '' '' \<notin> set name"
  by (auto simp: valid_ref_name_def ref_name_char_def)

lemma parse_scalar_at:
  "parse_scalar zinc (CHR ''@'' # rest) ver =
     (case split_space rest of
        (name, val) \<Rightarrow>
          (case Ref_init name val False of Inl e \<Rightarrow> Inl e | Inr r \<Rightarrow> Inr (Parsed (PyRef r))))"
  by (simp add: parse_scalar_def check_mark_def)

text \<open>A quoted CSV cell can end in a newline, and the cell \<open>@a\<close> plus newline is a Ref.\<close>

lemma parse_scalar_at_newline:
  "parse_scalar zinc [CHR ''@'', CHR ''a'', CHR 0x0A] ver =
     Inr (Parsed (PyRef \<lparr>ref_name = [CHR ''a'', CHR 0x0A], ref_value = None,
                            ref_has_value = False\<rparr>))"
  by (simp add: parse_scalar_at split_space_def Ref_init_def re_match_name_def ref_name_char_def)

text \<open>
  One row whose cells all parse: the loop either returns the row's map, and then no cell
  beyond the header columns is non-empty, or raises \<open>ZincParseException\<close>, and then one is.
\<close>

lemma parse_cells_extra:
  assumes "\<forall>c \<in> set row. \<exists>v. parse_scalar zinc c ver = Inr v"
  shows "(\<exists>m. parse_cells zinc ver headers idx row a_map = Inr m
            \<and> \<not> (\<exists>c \<in> set (drop (length headers - idx) row). c \<noteq> []))
         \<or> (parse_cells zinc ver headers idx row a_map = Inl ZincParseException
            \<and> (\<exists>c \<in> set (drop (length headers - idx) row). c \<noteq> []))"
  using assms
proof (induction row arbitrary: idx a_map)
  case Nil
  then show ?case by simp
next
  case (Cons c row)
  from Cons.prems obtain v where v: "parse_scalar zinc c ver = Inr v" by auto
  have rest: "\<forall>c \<in> set row. \<exists>v. parse_scalar zinc c ver = Inr v"
    using Cons.prems by simp
  note IH = Cons.IH [OF rest]
  show ?case
  proof (cases v)
    case EMPTY
    with v have c: "c = []" by (simp add: parse_scalar_EMPTY)
    have d: "(\<exists>x \<in> set (drop (length headers - idx) (c # row)). x \<noteq> [])
             \<longleftrightarrow> (\<exists>x \<in> set (drop (length headers - Suc idx) row). x \<noteq> [])"
    proof (cases "length headers - idx")
      case 0
      then have "length headers - Suc idx = 0" by simp
      with 0 c show ?thesis by simp
    next
      case (Suc k)
      then have "length headers - Suc idx = k" by simp
      with Suc show ?thesis by simp
    qed
    have step: "parse_cells zinc ver headers idx (c # row) a_map
        = parse_cells zinc ver headers (Suc idx) row a_map"
      using v EMPTY by simp
    show ?thesis unfolding step d by (rule IH)
  next
    case (Parsed x)
    with v have c: "c \<noteq> []" using parse_scalar_EMPTY [of zinc c ver] by auto
    show ?thesis
    proof (cases "idx \<ge> length headers")
      case True
      then show ?thesis using v Parsed c by simp
    next
      case False
      then obtain k where k: "length headers - idx = Suc k" "length headers - Suc idx = k"
        by (cases "length headers - idx") auto
      have step: "parse_cells zinc ver headers idx (c # row) a_map
          = parse_cells zinc ver headers (Suc idx) row
              (if x \<noteq> PyNone then a_map(headers ! idx \<mapsto> x) else a_map)"
        using v Parsed False by simp
      have d: "(\<exists>y \<in> set (drop (length headers - idx) (c # row)). y \<noteq> [])
               \<longleftrightarrow> (\<exists>y \<in> set (drop (length headers - Suc idx) row). y \<noteq> [])"
        using k by simp
      show ?thesis unfolding step d by (rule IH)
    qed
  qed
qed

text \<open>The same for the rows of a grid: the first row with such a cell stops the parse.\<close>

lemma parse_rows_extra:
  assumes "\<forall>row \<in> set rows. \<forall>c \<in> set row. \<exists>v. parse_scalar zinc c ver = Inr v"
  shows "(\<exists>g. parse_rows zinc ver headers rows grid = Inr g
            \<and> \<not> (\<exists>row \<in> set rows. \<exists>c \<in> set (drop (length headers) row). c \<noteq> []))
         \<or> (parse_rows zinc ver headers rows grid = Inl ZincParseException
            \<and> (\<exists>row \<in> set rows. \<exists>c \<in> set (drop (length headers) row). c \<noteq> []))"
  using assms
proof (induction rows arbitrary: grid)
  case Nil
  then show ?case by simp
next
  case (Cons row rows)
  have r: "\<forall>c \<in> set row. \<exists>v. parse_scalar zinc c ver = Inr v"
    and rest: "\<forall>row \<in> set rows. \<forall>c \<in> set row. \<exists>v. parse_scalar zinc c ver = Inr v"
    using Cons.prems by simp_all
  from parse_cells_extra [OF r, of headers 0 Map.empty]
  show ?case
  proof
    assume "\<exists>m. parse_cells zinc ver headers 0 row Map.empty = Inr m
              \<and> \<not> (\<exists>c \<in> set (drop (length headers - 0) row). c \<noteq> [])"
    then obtain m where m: "parse_cells zinc ver headers 0 row Map.empty = Inr m"
      and none: "\<not> (\<exists>c \<in> set (drop (length headers) row). c \<noteq> [])" by auto
    show ?thesis
      using Cons.IH [OF rest, of "Grid_append grid m"] m none by simp
  next
    assume "parse_cells zinc ver headers 0 row Map.empty = Inl ZincParseException
              \<and> (\<exists>c \<in> set (drop (length headers - 0) row). c \<noteq> [])"
    then show ?thesis by simp
  qed
qed

lemmas csv_eval = parse_grid_def Grid_init_def Grid_append_def parse_scalar_def check_mark_def
  zinc_rejects_def split_space_def Ref_init_def re_match_name_def ref_name_char_def MARKER_def

text \<open>
  Claim C3 as stated fails: under the one header \<open>a\<close>, the data row \<open>true,\<close> has two cells,
  more than the header row has names, and the parse returns the grid with the row
  \<open>{a: True}\<close>: an extra cell that is empty is skipped before the count is looked at.
\<close>

theorem csv_extra_empty_cell_counterexample:
  "parse_grid zinc_rejects () [[''a''], [''true'', '''']] =
     Inr \<lparr>grid_version = (), grid_metadata = Map.empty, grid_column = [(''a'', Map.empty)],
          grid_rows = [[''a'' \<mapsto> PyBool True]]\<rparr>"
  by (simp add: csv_eval)

text \<open>
  Claim C3, amended: when the column names are distinct and no cell raises by itself,
  parsing a CSV grid raises the parse error exactly when some data row has a non-empty
  cell beyond the header columns; otherwise (extra cells all empty, or none) it returns a
  grid.
\<close>

theorem csv_extra_cell_raises:
  assumes "distinct headers"
    and "\<forall>row \<in> set rows. \<forall>c \<in> set row. \<exists>v. parse_scalar zinc c ver = Inr v"
  shows "((\<exists>row \<in> set rows. \<exists>c \<in> set (drop (length headers) row). c \<noteq> [])
            \<longrightarrow> parse_grid zinc ver (headers # rows) = Inl ZincParseException)
         \<and> (\<not> (\<exists>row \<in> set rows. \<exists>c \<in> set (drop (length headers) row). c \<noteq> [])
            \<longrightarrow> (\<exists>g. parse_grid zinc ver (headers # rows) = Inr g))"
proof -
  let ?g = "\<lparr>grid_version = ver, grid_metadata = Map.empty,
             grid_column = map (\<lambda>x. (x, Map.empty)) headers, grid_rows = []\<rparr>"
  have "map fst (map (\<lambda>x. (x, Map.empty :: string \<rightharpoonup> pyobj)) headers) = headers"
    by (induction headers) simp_all
  then have g: "parse_grid zinc ver (headers # rows) = parse_rows zinc ver headers rows ?g"
    using assms(1) by (simp add: parse_grid_def Grid_init_def)
  show ?thesis
    using parse_rows_extra [OF assms(2), of headers ?g] unfolding g by auto
qed

theorem csv_extra_cell_raises_witness:
  "parse_grid zinc_rejects () [[''a''], [''true'', ''false'']] = Inl ZincParseException
   \<and> parse_grid zinc_rejects () [[''a''], [''true'', '''', ''x'']] = Inl ZincParseException
   \<and> (\<exists>g. parse_grid zinc_rejects () [[''a''], [''true'', '''']] = Inr g)"
  using csv_extra_cell_raises [of "[''a'']" "[[''true'', ''false'']]" zinc_rejects "()"]
    csv_extra_cell_raises [of "[''a'']" "[[''true'', '''', ''x'']]" zinc_rejects "()"]
    csv_extra_cell_raises [of "[''a'']" "[[''true'', '''']]" zinc_rejects "()"]
  by (simp add: parse_scalar_def zinc_rejects_def check_mark_def)

text \<open>
  Claim C4 as stated fails in one rule: a cell starting with \<open>@\<close> is not always a Ref. The
  cell \<open>@\<close> has the empty name, the constructor of Ref refuses it, and the cell, and with
  it the grid, fails with \<open>AssertionError\<close>.
\<close>

theorem csv_at_cell_counterexample:
  "parse_scalar zinc_rejects ''@'' () = Inl AssertionError
   \<and> parse_grid zinc_rejects () [[''a''], [''@'']] = Inl AssertionError"
  by (simp add: csv_eval)

text \<open>
  Claim C4, amended: the empty cell is absence (the loop goes on without an entry for the
  column); the check mark is Marker; \<open>true\<close> and \<open>false\<close> are Bool; a cell starting with \<open>@\<close>
  is handed to the constructor of Ref, with the text up to the first space as the name and
  the text after it, if there is a space, as the display, and is that Ref when the name is
  valid; a cell that is none of these and does not start with \<open>@\<close> is what the Zinc scalar
  parser returns, and the cell itself as a plain string when that parser raises its parse
  error. The row of the check mark, an empty cell, \<open>true\<close> and \<open>@x\<close> under the headers
  \<open>a,b,c,d\<close> gives \<open>{a: Marker, c: True, d: Ref("x")}\<close>, without \<open>b\<close>.
\<close>

theorem csv_cell_rules:
  "parse_scalar zinc [] ver = Inr EMPTY
   \<and> parse_cells zinc ver headers idx ([] # row) a_map
       = parse_cells zinc ver headers (Suc idx) row a_map
   \<and> parse_scalar zinc check_mark ver = Inr (Parsed (PySingleton MARKER))
   \<and> parse_scalar zinc ''true'' ver = Inr (Parsed (PyBool True))
   \<and> parse_scalar zinc ''false'' ver = Inr (Parsed (PyBool False))
   \<and> parse_scalar zinc (CHR ''@'' # rest) ver =
       (case split_space rest of
          (name, val) \<Rightarrow>
            (case Ref_init name val False of
               Inl e \<Rightarrow> Inl e
             | Inr r \<Rightarrow> Inr (Parsed (PyRef r))))
   \<and> (valid_ref_name name \<longrightarrow>
        parse_scalar zinc (CHR ''@'' # name) ver =
          Inr (Parsed (PyRef \<lparr>ref_name = name, ref_value = None, ref_has_value = False\<rparr>))
      \<and> parse_scalar zinc (CHR ''@'' # name @ CHR '' '' # dis) ver =
          Inr (Parsed (PyRef \<lparr>ref_name = name, ref_value = Some dis, ref_has_value = True\<rparr>)))
   \<and> (c \<noteq> [] \<and> c \<noteq> check_mark \<and> c \<noteq> ''true'' \<and> c \<noteq> ''false'' \<and> hd c \<noteq> CHR ''@'' \<longrightarrow>
        (zinc c ver = Inr v \<longrightarrow> parse_scalar zinc c ver = Inr (Parsed v))
      \<and> (zinc c ver = Inl ZincParseException \<longrightarrow> parse_scalar zinc c ver = Inr (Parsed (PyStr c))))
   \<and> parse_grid zinc ver [[''a'', ''b'', ''c'', ''d''], [check_mark, '''', ''true'', ''@x'']] =
       Inr \<lparr>grid_version = ver, grid_metadata = Map.empty,
            grid_column = [(''a'', Map.empty), (''b'', Map.empty), (''c'', Map.empty), (''d'', Map.empty)],
            grid_rows = [[''a'' \<mapsto> PySingleton MARKER, ''c'' \<mapsto> PyBool True,
                          ''d'' \<mapsto> PyRef \<lparr>ref_name = ''x'', ref_value = None, ref_has_value = False\<rparr>]]\<rparr>
   \<and> ''b'' \<notin> dom [''a'' \<mapsto> PySingleton MARKER, ''c'' \<mapsto> PyBool True,
                    ''d'' \<mapsto> PyRef \<lparr>ref_name = ''x'', ref_value = None, ref_has_value = False\<rparr>]"
proof -
  have empty: "parse_scalar zinc [] ver = Inr EMPTY"
    by (simp add: parse_scalar_def)
  have skip: "parse_cells zinc ver headers idx ([] # row) a_map
       = parse_cells zinc ver headers (Suc idx) row a_map"
    by (simp add: empty)
  have mark: "parse_scalar zinc check_mark ver = Inr (Parsed (PySingleton MARKER))"
    by (simp add: parse_scalar_def check_mark_def)
  have tr: "parse_scalar zinc ''true'' ver = Inr (Parsed (PyBool True))"
    by (simp add: parse_scalar_def check_mark_def)
  have fa: "parse_scalar zinc ''false'' ver = Inr (Parsed (PyBool False))"
    by (simp add: parse_scalar_def check_mark_def)
  have ref: "valid_ref_name name \<longrightarrow>
        parse_scalar zinc (CHR ''@'' # name) ver =
          Inr (Parsed (PyRef \<lparr>ref_name = name, ref_value = None, ref_has_value = False\<rparr>))
      \<and> parse_scalar zinc (CHR ''@'' # name @ CHR '' '' # dis) ver =
          Inr (Parsed (PyRef \<lparr>ref_name = name, ref_value = Some dis, ref_has_value = True\<rparr>))"
    by (simp add: parse_scalar_at split_space_no_space split_space_at_space
        valid_ref_name_no_space Ref_init_valid)
  have other: "c \<noteq> [] \<and> c \<noteq> check_mark \<and> c \<noteq> ''true'' \<and> c \<noteq> ''false'' \<and> hd c \<noteq> CHR ''@'' \<longrightarrow>
        (zinc c ver = Inr v \<longrightarrow> parse_scalar zinc c ver = Inr (Parsed v))
      \<and> (zinc c ver = Inl ZincParseException \<longrightarrow> parse_scalar zinc c ver = Inr (Parsed (PyStr c)))"
    by (simp add: parse_scalar_def)
  have x: "parse_scalar zinc ''@x'' ver =
     Inr (Parsed (PyRef \<lparr>ref_name = ''x'', ref_value = None, ref_has_value = False\<rparr>))"
    by (simp add: parse_scalar_at split_space_def Ref_init_def re_match_name_def ref_name_char_def)
  have s5: "parse_grid zinc ver [[''a'', ''b'', ''c'', ''d''], [check_mark, '''', ''true'', ''@x'']] =
       Inr \<lparr>grid_version = ver, grid_metadata = Map.empty,
            grid_column = [(''a'', Map.empty), (''b'', Map.empty), (''c'', Map.empty), (''d'', Map.empty)],
            grid_rows = [[''a'' \<mapsto> PySingleton MARKER, ''c'' \<mapsto> PyBool True,
                          ''d'' \<mapsto> PyRef \<lparr>ref_name = ''x'', ref_value = None, ref_has_value = False\<rparr>]]\<rparr>"
    by (simp add: parse_grid_def Grid_init_def Grid_append_def empty mark tr x)
  have b: "''b'' \<notin> dom [''a'' \<mapsto> PySingleton MARKER, ''c'' \<mapsto> PyBool True,
                    ''d'' \<mapsto> PyRef \<lparr>ref_name = ''x'', ref_value = None, ref_has_value = False\<rparr>]"
    by simp
  note at = parse_scalar_at [of zinc rest ver]
  from empty skip mark tr fa at ref other s5 b show ?thesis by blast
qed

theorem csv_cell_rules_witness:
  "parse_scalar zinc_rejects ''@abc Boiler 1'' () =
     Inr (Parsed (PyRef \<lparr>ref_name = ''abc'', ref_value = Some ''Boiler 1'', ref_has_value = True\<rparr>))
   \<and> parse_scalar zinc_rejects ''@abc'' () =
     Inr (Parsed (PyRef \<lparr>ref_name = ''abc'', ref_value = None, ref_has_value = False\<rparr>))
   \<and> parse_scalar zinc_rejects ''hello'' () = Inr (Parsed (PyStr ''hello''))
   \<and> parse_scalar (\<lambda>s v. Inr (PyFloat (Finite 42))) ''42'' () = Inr (Parsed (PyFloat (Finite 42)))"
  using csv_cell_rules [where zinc = zinc_rejects and ver = "()" and name = "''abc''"
      and dis = "''Boiler 1''" and c = "''hello''"]
    csv_cell_rules [where zinc = "\<lambda>s v. Inr (PyFloat (Finite 42))" and ver = "()"
      and name = "''abc''" and c = "''42''" and v = "PyFloat (Finite 42)"]
  by (simp add: valid_ref_name_def ref_name_char_def check_mark_def zinc_rejects_def
      split_space_def Ref_init_def re_match_name_def)

section \<open>Properties of the format negotiation\<close>

lemmas mode_defs = MODE_CSV_def MODE_ZINC_def MODE_JSON_def DEFAULT_MIME_TYPE_def

lemma matches_star: "matches r ''*/*'' \<longleftrightarrow> r = ''*/*''"
  by (auto simp: matches_def major_type_def)

lemma matches_star_any: "matches ''*/*'' t"
  by (simp add: matches_def)

text \<open>Entries of one weight are left in the header's order by the sort.\<close>

lemma sorted_reverse_equal_weights:
  "\<forall>a \<in> set header. weight a = q \<Longrightarrow> sorted_reverse header = header"
proof (induction header)
  case Nil
  then show ?case by (simp add: sorted_reverse_def)
next
  case (Cons a header)
  then have ih: "sort_key (\<lambda>a. - weight a) header = header"
    by (simp add: sorted_reverse_def)
  have step: "sort_key (\<lambda>a. - weight a) (a # header) = insort_key (\<lambda>a. - weight a) a header"
    by (simp add: ih)
  have "insort_key (\<lambda>a. - weight a) a header = a # header"
    using Cons.prems by (cases header) simp_all
  with step show ?case by (simp only: sorted_reverse_def)
qed

text \<open>The two loops on the four offered types: the first entry that matches a format decides.\<close>

lemma dump_response_first_match:
  "dump_response (\<lambda>h. first_match h) dump hs grid default_mode =
     (case find offered hs of
        None \<Rightarrow> dump_default dump grid default_mode
      | Some a \<Rightarrow>
          if matches (media_range a) MODE_CSV
            then Inr (''text/csv; charset=utf-8'', dump grid MODE_CSV)
          else if matches (media_range a) MODE_ZINC
            then Inr (''text/zinc; charset=utf-8'', dump grid MODE_ZINC)
          else Inr (''application/json; charset=utf-8'', dump grid MODE_JSON))"
proof (induction hs)
  case Nil
  then show ?case by (simp add: dump_response_def)
next
  case (Cons a hs)
  show ?case
  proof (cases "offered a")
    case False
    then have "find (matches (media_range a)) [''*/*'', MODE_CSV, MODE_ZINC, MODE_JSON] = None"
      using matches_star_any [of MODE_CSV]
      by (auto simp: matches_star offered_def)
    then have "dump_response (\<lambda>h. first_match h) dump (a # hs) grid default_mode
        = dump_response (\<lambda>h. first_match h) dump hs grid default_mode"
      by (simp add: dump_response_def)
    with Cons False show ?thesis by simp
  next
    case True
    show ?thesis
      using True
      by (auto simp: dump_response_def offered_def mode_defs matches_star matches_star_any)
  qed
qed

text \<open>
  Claim C8 as stated fails: the header \<open>application/json, text/zinc\<close>, both of weight 1,
  accepts Zinc and JSON alike, and the response is JSON, not Zinc: the header's first
  entry decides, not the preference csv > zinc > json.
\<close>

theorem negotiation_header_order_counterexample:
  "dump_response get_best_match (\<lambda>g m. m @ '':'' @ g)
     [\<lparr>media_range = ''application/json'', weight = 1\<rparr>, \<lparr>media_range = ''text/zinc'', weight = 1\<rparr>]
     ''grid'' None
   = Inr (''application/json; charset=utf-8'', ''application/json:grid'')"
  by (simp add: dump_response_def get_best_match_def sorted_reverse_def matches_def major_type_def
      mode_defs)

text \<open>
  Claim C8, amended: the header's entries are taken by weight, the highest first, and in
  the header's order among equal weights, so in the header's order when all are equally
  weighted. The first entry that matches one of the three formats decides the response:
  CSV when it matches CSV, else Zinc when it matches Zinc, else JSON. The preference
  csv > zinc > json thus holds within one media range (\<open>*/*\<close> gives CSV), not between the
  entries. When no entry matches a format the default format is used, and without a
  default the step raises \<open>HttpError(406)\<close>.
\<close>

theorem negotiation_header_order:
  "dump_response get_best_match dump header grid default_mode =
     (case find offered (sorted_reverse header) of
        None \<Rightarrow> dump_default dump grid default_mode
      | Some a \<Rightarrow>
          if matches (media_range a) MODE_CSV
            then Inr (''text/csv; charset=utf-8'', dump grid MODE_CSV)
          else if matches (media_range a) MODE_ZINC
            then Inr (''text/zinc; charset=utf-8'', dump grid MODE_ZINC)
          else Inr (''application/json; charset=utf-8'', dump grid MODE_JSON))
   \<and> sorted (map (\<lambda>a. - weight a) (sorted_reverse header))
   \<and> set (sorted_reverse header) = set header
   \<and> filter (\<lambda>a. weight a = q) (sorted_reverse header) = filter (\<lambda>a. weight a = q) header
   \<and> ((\<forall>a \<in> set header. weight a = q) \<longrightarrow> sorted_reverse header = header)
   \<and> dump_default dump grid None = Inl (HttpError 406)
   \<and> dump_response get_best_match dump [\<lparr>media_range = ''*/*'', weight = q\<rparr>] grid default_mode =
       Inr (''text/csv; charset=utf-8'', dump grid MODE_CSV)"
proof -
  have g: "dump_response get_best_match dump h grid default_mode
      = dump_response (\<lambda>h. first_match h) dump (sorted_reverse h) grid default_mode" for h
    by (simp add: dump_response_def get_best_match_def)
  have one: "sorted_reverse [\<lparr>media_range = ''*/*'', weight = q\<rparr>] = [\<lparr>media_range = ''*/*'', weight = q\<rparr>]"
    by (simp add: sorted_reverse_def)
  have star: "offered \<lparr>media_range = ''*/*'', weight = q\<rparr>"
    "matches ''*/*'' MODE_CSV"
    by (simp_all add: offered_def matches_def)
  have stable: "filter (\<lambda>a. weight a = q) (sorted_reverse header)
      = filter (\<lambda>a. weight a = q) header"
    using sort_key_stable [of "\<lambda>a. - weight a" "- q" header]
    by (simp add: sorted_reverse_def)
  have srt: "sorted (map (\<lambda>a. - weight a) (sorted_reverse header))"
    "set (sorted_reverse header) = set header"
    by (simp_all add: sorted_reverse_def)
  show ?thesis
    using sorted_reverse_equal_weights [of header q] star stable srt
    by (simp add: g dump_response_first_match one dump_default_def)
qed

theorem negotiation_header_order_witness:
  "dump_response get_best_match (\<lambda>g m. m @ '':'' @ g)
     [\<lparr>media_range = ''image/png'', weight = 1\<rparr>, \<lparr>media_range = ''text/*'', weight = 1\<rparr>,
      \<lparr>media_range = ''application/json'', weight = 1\<rparr>] ''grid'' None
     = Inr (''text/csv; charset=utf-8'', ''text/csv:grid'')
   \<and> dump_response get_best_match (\<lambda>g m. m @ '':'' @ g)
     [\<lparr>media_range = ''text/zinc'', weight = 1\<rparr>, \<lparr>media_range = ''text/csv'', weight = 1\<rparr>] ''grid'' None
     = Inr (''text/zinc; charset=utf-8'', ''text/zinc:grid'')
   \<and> dump_response get_best_match (\<lambda>g m. m @ '':'' @ g)
     [\<lparr>media_range = ''image/png'', weight = 1\<rparr>] ''grid'' None
     = Inl (HttpError 406)"
  using negotiation_header_order [of "\<lambda>g m. m @ '':'' @ g"
      "[\<lparr>media_range = ''image/png'', weight = 1\<rparr>, \<lparr>media_range = ''text/*'', weight = 1\<rparr>,
        \<lparr>media_range = ''application/json'', weight = 1\<rparr>]" "''grid''" None 1]
    negotiation_header_order [of "\<lambda>g m. m @ '':'' @ g"
      "[\<lparr>media_range = ''text/zinc'', weight = 1\<rparr>, \<lparr>media_range = ''text/csv'', weight = 1\<rparr>]" "''grid''" None 1]
    negotiation_header_order [of "\<lambda>g m. m @ '':'' @ g"
      "[\<lparr>media_range = ''image/png'', weight = 1\<rparr>]" "''grid''" None 1]
  by (simp add: offered_def matches_def major_type_def mode_defs)

text \<open>A higher weight goes first, whatever the header's order.\<close>

lemma negotiation_weights_decide:
  "dump_response get_best_match (\<lambda>g m. m @ '':'' @ g)
     [\<lparr>media_range = ''text/csv'', weight = 1 / 2\<rparr>, \<lparr>media_range = ''application/json'', weight = 1\<rparr>]
     ''grid'' None
   = Inr (''application/json; charset=utf-8'', ''application/json:grid'')"
  by (simp add: dump_response_def get_best_match_def sorted_reverse_def matches_def major_type_def
      mode_defs)

end
